theory Spec2Isabelle
  imports Main
begin

section \<open>Data model\<close>

text \<open>
  The volume manager of \<^verbatim>\<open>manager/manager.go\<close> reads and writes records of the
  package \<^verbatim>\<open>types\<close>. Only the fields that \<^verbatim>\<open>manager.go\<close> touches are
  modelled. A Go string is a \<open>string\<close>; a nil pointer is \<open>None\<close>.
\<close>

text \<open>
  The constants \<^verbatim>\<open>types.VolumeStateCreated\<close>, ... that \<^verbatim>\<open>manager.go\<close> compares
  and assigns. \<open>VolumeStateUnset\<close> stands for the zero value of the Go type, which a
  record written out-of-band carries before \<^verbatim>\<open>VolumeCreateBySpec\<close> adopts it.
\<close>

datatype VolumeState =
    VolumeStateUnset
  | VolumeStateCreated
  | VolumeStateDetached
  | VolumeStateFault
  | VolumeStateHealthy
  | VolumeStateDegraded
  | VolumeStateDeleted

record RecurringJob =
  JobName :: string
  Cron :: string

text \<open>
  \<^verbatim>\<open>types.VolumeInfo\<close>: the embedded \<^verbatim>\<open>VolumeSpec\<close>, \<^verbatim>\<open>VolumeStatus\<close> and
  \<^verbatim>\<open>Metadata\<close> flattened, as Go's field promotion lets \<^verbatim>\<open>manager.go\<close> write
  \<^verbatim>\<open>volume.Name\<close>, \<^verbatim>\<open>volume.State\<close>, \<^verbatim>\<open>volume.OwnerID\<close>. Sizes are strings
  (\<^verbatim>\<open>util.ConvertSize\<close> parses them).
\<close>

record VolumeInfo =
  Name :: string
  OwnerID :: string
  Size :: string
  FromBackup :: string
  NumberOfReplicas :: int
  StaleReplicaTimeout :: int
  DesireState :: VolumeState
  RecurringJobs :: "RecurringJob list"
  NodeID :: string
  State :: VolumeState
  Created :: string

text \<open>
  \<^verbatim>\<open>types.ReplicaInfo\<close>, keyed in the datastore by volume name and replica name;
  \<open>FailedAt\<close> is empty for a healthy replica.
\<close>

record ReplicaInfo =
  VolumeName :: string
  ReplicaName :: string
  FailedAt :: string

record SettingsInfo =
  BackupTarget :: string

text \<open>The value of \<^verbatim>\<open>&types.SettingsInfo{}\<close>.\<close>

definition emptySettingsInfo :: SettingsInfo where
  "emptySettingsInfo = \<lparr>BackupTarget = ''''\<rparr>"

record Node =
  ID :: string

record Backup =
  VolumeSize :: string

datatype Event = Event string

text \<open>The request structures handed to the public operations.\<close>

record VolumeCreateRequest =
  create_Name :: string
  create_Size :: string
  create_FromBackup :: string
  create_NumberOfReplicas :: int
  create_StaleReplicaTimeout :: int

record VolumeAttachRequest =
  attach_Name :: string
  attach_NodeID :: string

record VolumeDetachRequest =
  detach_Name :: string

record VolumeDeleteRequest =
  delete_Name :: string

record VolumeSalvageRequest =
  salvage_Name :: string
  salvage_SalvageReplicaNames :: "string list"

record VolumeRecurringUpdateRequest =
  recurring_Name :: string
  recurring_RecurringJobs :: "RecurringJob list"

section \<open>Errors and panics\<close>

text \<open>
  One constructor for each \<^verbatim>\<open>fmt.Errorf\<close> of \<^verbatim>\<open>manager.go\<close>, one for
  \<^verbatim>\<open>errors.Wrap\<close>, and \<open>Collaborator\<close> for an error that a collaborator (the
  datastore, the size parser, the node registry, the engine API, the volume
  validation) hands back.
\<close>

datatype error =
    CannotFindVolume string
  | InvalidStateToAttach VolumeState
  | InvalidStateToDetach VolumeState
  | InvalidStateToSalvage VolumeState
  | ReplicaIsNotBad string
  | NoTargetNodeID string
  | CannotGetBackup string error
  | CannotFindManagedVolume string
  | NoSuchRecord string
  | Collaborator string
  | Wrap error string

text \<open>
  How a call with the named result \<^verbatim>\<open>err\<close> leaves its body: by a \<^verbatim>\<open>return\<close>,
  or by a run-time panic (a nil pointer dereference). Either way the deferred function
  runs next and sees the value that \<^verbatim>\<open>err\<close> holds at that moment, which is the
  argument of both constructors.
\<close>

datatype outcome = Returns "error option" | Panics "error option"

text \<open>
  The deferred function shared by the mutating operations:
  \<^verbatim>\<open>if err != nil { err = errors.Wrap(err, msg) }\<close>.
\<close>

definition wrapErr :: "string \<Rightarrow> error option \<Rightarrow> error option" where
  "wrapErr msg err = (case err of None \<Rightarrow> None | Some e \<Rightarrow> Some (Wrap e msg))"

section \<open>The datastore\<close>

text \<open>
  Modelled from the spec: the package \<^verbatim>\<open>datastore\<close> is not among the sources. The
  spec describes it as the durable source of truth for volume, replica and settings
  records, keyed by volume name (and replica name), whose get calls return not-found as
  nil rather than as an error, whose update calls return an error for a record that does
  not exist, and which may fail as any collaborator may. The records are held by value:
  what a get call returns is a copy, and changing it changes nothing durable until an
  update call writes it back.

  \<open>faults\<close> is the schedule of collaborator failures: each datastore call takes the
  head of the list, and fails with that error when it is \<open>Some\<close>; an empty schedule is a
  datastore that never fails on its own.
\<close>

record DataStore =
  volumes :: "string \<rightharpoonup> VolumeInfo"
  replicas :: "string \<times> string \<rightharpoonup> ReplicaInfo"
  settingsRecord :: "SettingsInfo option"
  faults :: "error option list"

text \<open>
  Modelled from the spec: whether the next datastore call fails as a collaborator, and
  the datastore with that entry of the schedule used up.
\<close>

definition nextFault :: "DataStore \<Rightarrow> error option \<times> DataStore" where
  "nextFault d = (case faults d of [] \<Rightarrow> (None, d) | f # fs \<Rightarrow> (f, d\<lparr>faults := fs\<rparr>))"

text \<open>Modelled from the spec: \<^verbatim>\<open>ds.GetVolume(name)\<close>, returning Go's pair (volume, err).\<close>

definition GetVolume :: "DataStore \<Rightarrow> string \<Rightarrow> (VolumeInfo option \<times> error option) \<times> DataStore" where
  "GetVolume d name =
     (case nextFault d of
        (Some e, d') \<Rightarrow> ((None, Some e), d')
      | (None, d') \<Rightarrow> ((volumes d' name, None), d'))"

text \<open>Modelled from the spec: \<^verbatim>\<open>ds.UpdateVolume(volume)\<close>, keyed by the record's name.\<close>

definition UpdateVolume :: "DataStore \<Rightarrow> VolumeInfo \<Rightarrow> error option \<times> DataStore" where
  "UpdateVolume d v =
     (case nextFault d of
        (Some e, d') \<Rightarrow> (Some e, d')
      | (None, d') \<Rightarrow>
          (case volumes d' (Name v) of
             None \<Rightarrow> (Some (NoSuchRecord (Name v)), d')
           | Some _ \<Rightarrow> (None, d'\<lparr>volumes := (volumes d')(Name v \<mapsto> v)\<rparr>)))"

text \<open>Modelled from the spec: the write behind \<^verbatim>\<open>NewVolume\<close>, which persists a new record.\<close>

definition CreateVolume :: "DataStore \<Rightarrow> VolumeInfo \<Rightarrow> error option \<times> DataStore" where
  "CreateVolume d v =
     (case nextFault d of
        (Some e, d') \<Rightarrow> (Some e, d')
      | (None, d') \<Rightarrow> (None, d'\<lparr>volumes := (volumes d')(Name v \<mapsto> v)\<rparr>))"

text \<open>Modelled from the spec: \<^verbatim>\<open>ds.GetVolumeReplica(volumeName, replicaName)\<close>.\<close>

definition GetVolumeReplica ::
  "DataStore \<Rightarrow> string \<Rightarrow> string \<Rightarrow> (ReplicaInfo option \<times> error option) \<times> DataStore" where
  "GetVolumeReplica d volName repName =
     (case nextFault d of
        (Some e, d') \<Rightarrow> ((None, Some e), d')
      | (None, d') \<Rightarrow> ((replicas d' (volName, repName), None), d'))"

text \<open>Modelled from the spec: \<^verbatim>\<open>ds.UpdateVolumeReplica(replica)\<close>.\<close>

definition UpdateVolumeReplica :: "DataStore \<Rightarrow> ReplicaInfo \<Rightarrow> error option \<times> DataStore" where
  "UpdateVolumeReplica d r =
     (case nextFault d of
        (Some e, d') \<Rightarrow> (Some e, d')
      | (None, d') \<Rightarrow>
          (case replicas d' (VolumeName r, ReplicaName r) of
             None \<Rightarrow> (Some (NoSuchRecord (ReplicaName r)), d')
           | Some _ \<Rightarrow>
               (None, d'\<lparr>replicas := (replicas d')((VolumeName r, ReplicaName r) \<mapsto> r)\<rparr>)))"

text \<open>Modelled from the spec: \<^verbatim>\<open>ds.GetSettings()\<close>, nil when no settings record exists.\<close>

definition GetSettings :: "DataStore \<Rightarrow> (SettingsInfo option \<times> error option) \<times> DataStore" where
  "GetSettings d =
     (case nextFault d of
        (Some e, d') \<Rightarrow> ((None, Some e), d')
      | (None, d') \<Rightarrow> ((settingsRecord d', None), d'))"

text \<open>Modelled from the spec: \<^verbatim>\<open>ds.CreateSettings(settings)\<close>.\<close>

definition CreateSettings :: "DataStore \<Rightarrow> SettingsInfo \<Rightarrow> error option \<times> DataStore" where
  "CreateSettings d s =
     (case nextFault d of
        (Some e, d') \<Rightarrow> (Some e, d')
      | (None, d') \<Rightarrow> (None, d'\<lparr>settingsRecord := Some s\<rparr>))"



section \<open>The volume manager\<close>

text \<open>
  Modelled from the spec: a \<^verbatim>\<open>ManagedVolume\<close> (its file is not among the sources)
  is the in-memory handle of one volume, wrapping the view of its record.
\<close>

record ManagedVolume =
  mv_volume :: VolumeInfo

text \<open>
  \<^verbatim>\<open>VolumeManager\<close>: the datastore, the cache of managed volumes, and the events sent
  on \<^verbatim>\<open>EventChan\<close> so far, oldest first.
\<close>

record VolumeManager =
  ds :: DataStore
  managedVolumes :: "string \<rightharpoonup> ManagedVolume"
  EventChan :: "Event list"

text \<open>
  The collaborators that \<^verbatim>\<open>manager.go\<close> calls and whose code is elsewhere, taken as
  parameters: \<^verbatim>\<open>util.ConvertSize\<close>, the node that \<^verbatim>\<open>m.GetRandomNode()\<close> draws (or
  its error), \<^verbatim>\<open>engineapi.GetBackup\<close>, the time stamp that \<^verbatim>\<open>util.Now()\<close> gives,
  and \<^verbatim>\<open>m.ValidateVolume\<close>.
\<close>

record Collaborators =
  ConvertSize :: "string \<Rightarrow> error + int"
  GetRandomNode :: "error + Node"
  GetBackup :: "string \<Rightarrow> error + Backup"
  Now :: string
  ValidateVolume :: "VolumeInfo \<Rightarrow> error option"

subsection \<open>VolumeAttach\<close>

definition VolumeAttach :: "VolumeManager \<Rightarrow> VolumeAttachRequest \<Rightarrow> error option \<times> VolumeManager" where
  "VolumeAttach m request =
     (case GetVolume (ds m) (attach_Name request) of ((volume, err), d1) \<Rightarrow>
        (case err of
           Some e \<Rightarrow> (wrapErr ''unable to attach volume'' (Some e), m\<lparr>ds := d1\<rparr>)
         | None \<Rightarrow>
             (case volume of
                None \<Rightarrow>
                  (wrapErr ''unable to attach volume''
                     (Some (CannotFindVolume (attach_Name request))), m\<lparr>ds := d1\<rparr>)
              | Some volume \<Rightarrow>
                  if State volume \<noteq> VolumeStateDetached then
                    (wrapErr ''unable to attach volume''
                       (Some (InvalidStateToAttach (State volume))), m\<lparr>ds := d1\<rparr>)
                  else
                    let volume = volume\<lparr>NodeID := attach_NodeID request\<rparr>;
                        volume = volume\<lparr>OwnerID := NodeID volume\<rparr>;
                        volume = volume\<lparr>DesireState := VolumeStateHealthy\<rparr>
                    in (case UpdateVolume d1 volume of (err, d2) \<Rightarrow>
                          (wrapErr ''unable to attach volume'' err, m\<lparr>ds := d2\<rparr>)))))"

subsection \<open>VolumeDetach\<close>

definition VolumeDetach :: "VolumeManager \<Rightarrow> VolumeDetachRequest \<Rightarrow> error option \<times> VolumeManager" where
  "VolumeDetach m request =
     (case GetVolume (ds m) (detach_Name request) of ((volume, err), d1) \<Rightarrow>
        (case err of
           Some e \<Rightarrow> (wrapErr ''unable to detach volume'' (Some e), m\<lparr>ds := d1\<rparr>)
         | None \<Rightarrow>
             (case volume of
                None \<Rightarrow>
                  (wrapErr ''unable to detach volume''
                     (Some (CannotFindVolume (detach_Name request))), m\<lparr>ds := d1\<rparr>)
              | Some volume \<Rightarrow>
                  if State volume \<noteq> VolumeStateHealthy \<and> State volume \<noteq> VolumeStateDegraded then
                    (wrapErr ''unable to detach volume''
                       (Some (InvalidStateToDetach (State volume))), m\<lparr>ds := d1\<rparr>)
                  else
                    let volume = volume\<lparr>DesireState := VolumeStateDetached\<rparr>;
                        volume = volume\<lparr>NodeID := ''''\<rparr>
                    in (case UpdateVolume d1 volume of (err, d2) \<Rightarrow>
                          (wrapErr ''unable to detach volume'' err, m\<lparr>ds := d2\<rparr>)))))"

subsection \<open>VolumeDelete\<close>

definition VolumeDelete :: "VolumeManager \<Rightarrow> VolumeDeleteRequest \<Rightarrow> error option \<times> VolumeManager" where
  "VolumeDelete m request =
     (case GetVolume (ds m) (delete_Name request) of ((volume, err), d1) \<Rightarrow>
        (case err of
           Some e \<Rightarrow> (wrapErr ''unable to delete volume'' (Some e), m\<lparr>ds := d1\<rparr>)
         | None \<Rightarrow>
             (case volume of
                None \<Rightarrow>
                  (wrapErr ''unable to delete volume''
                     (Some (CannotFindVolume (delete_Name request))), m\<lparr>ds := d1\<rparr>)
              | Some volume \<Rightarrow>
                  let volume = volume\<lparr>DesireState := VolumeStateDeleted\<rparr>
                  in (case UpdateVolume d1 volume of (err, d2) \<Rightarrow>
                        (wrapErr ''unable to delete volume'' err, m\<lparr>ds := d2\<rparr>)))))"

subsection \<open>VolumeSalvage\<close>

text \<open>
  The deferred function of an operation that can also leave by a panic: it wraps the
  error that \<^verbatim>\<open>err\<close> holds, whichever way the body was left.
\<close>

definition deferWrap :: "string \<Rightarrow> outcome \<Rightarrow> outcome" where
  "deferWrap msg r =
     (case r of Returns err \<Rightarrow> Returns (wrapErr msg err) | Panics err \<Rightarrow> Panics (wrapErr msg err))"

text \<open>
  The loop over \<^verbatim>\<open>request.SalvageReplicaNames\<close>. The result is \<open>None\<close> when the loop
  ran to its end, and \<open>Some\<close> of the way the function was left from inside the loop. The
  loop's \<^verbatim>\<open>replica, err := ...\<close> declares variables of its own, so when
  \<^verbatim>\<open>replica.FailedAt\<close> dereferences a nil replica the named result still holds nil.
\<close>

fun salvageReplicas :: "DataStore \<Rightarrow> string \<Rightarrow> string list \<Rightarrow> outcome option \<times> DataStore" where
  "salvageReplicas d volName [] = (None, d)"
| "salvageReplicas d volName (repName # rest) =
     (case GetVolumeReplica d volName repName of ((replica, err), d1) \<Rightarrow>
        (case err of
           Some e \<Rightarrow> (Some (Returns (Some e)), d1)
         | None \<Rightarrow>
             (case replica of
                None \<Rightarrow> (Some (Panics None), d1)
              | Some replica \<Rightarrow>
                  if FailedAt replica = '''' then
                    (Some (Returns (Some (ReplicaIsNotBad repName))), d1)
                  else
                    let replica = replica\<lparr>FailedAt := ''''\<rparr>
                    in (case UpdateVolumeReplica d1 replica of
                          (Some e, d2) \<Rightarrow> (Some (Returns (Some e)), d2)
                        | (None, d2) \<Rightarrow> salvageReplicas d2 volName rest))))"

definition VolumeSalvage :: "VolumeManager \<Rightarrow> VolumeSalvageRequest \<Rightarrow> outcome \<times> VolumeManager" where
  "VolumeSalvage m request =
     (case GetVolume (ds m) (salvage_Name request) of ((volume, err), d1) \<Rightarrow>
        (case err of
           Some e \<Rightarrow> (deferWrap ''unable to salvage volume'' (Returns (Some e)), m\<lparr>ds := d1\<rparr>)
         | None \<Rightarrow>
             (case volume of
                None \<Rightarrow>
                  (deferWrap ''unable to salvage volume''
                     (Returns (Some (CannotFindVolume (salvage_Name request)))), m\<lparr>ds := d1\<rparr>)
              | Some volume \<Rightarrow>
                  if State volume \<noteq> VolumeStateFault then
                    (deferWrap ''unable to salvage volume''
                       (Returns (Some (InvalidStateToSalvage (State volume)))), m\<lparr>ds := d1\<rparr>)
                  else
                    (case salvageReplicas d1 (Name volume) (salvage_SalvageReplicaNames request) of
                       (Some left, d2) \<Rightarrow>
                         (deferWrap ''unable to salvage volume'' left, m\<lparr>ds := d2\<rparr>)
                     | (None, d2) \<Rightarrow>
                         let volume = volume\<lparr>DesireState := VolumeStateDetached\<rparr>
                         in (case UpdateVolume d2 volume of (err, d3) \<Rightarrow>
                               (deferWrap ''unable to salvage volume'' (Returns err),
                                m\<lparr>ds := d3\<rparr>))))))"

subsection \<open>VolumeRecurringUpdate\<close>

definition VolumeRecurringUpdate ::
  "VolumeManager \<Rightarrow> VolumeRecurringUpdateRequest \<Rightarrow> error option \<times> VolumeManager" where
  "VolumeRecurringUpdate m request =
     (case GetVolume (ds m) (recurring_Name request) of ((volume, err), d1) \<Rightarrow>
        (case err of
           Some e \<Rightarrow>
             (wrapErr ''unable to update volume recurring jobs'' (Some e), m\<lparr>ds := d1\<rparr>)
         | None \<Rightarrow>
             (case volume of
                None \<Rightarrow>
                  (wrapErr ''unable to update volume recurring jobs''
                     (Some (CannotFindVolume (recurring_Name request))), m\<lparr>ds := d1\<rparr>)
              | Some volume \<Rightarrow>
                  let volume = volume\<lparr>RecurringJobs := recurring_RecurringJobs request\<rparr>
                  in (case UpdateVolume d1 volume of (err, d2) \<Rightarrow>
                        (wrapErr ''unable to update volume recurring jobs'' err,
                         m\<lparr>ds := d2\<rparr>)))))"

subsection \<open>VolumeCreate\<close>

text \<open>
  Modelled from the spec: \<^verbatim>\<open>m.NewVolume(info)\<close> is defined in another file of the
  package; the spec says of it only that \<^verbatim>\<open>VolumeCreate\<close> persists the new record.
\<close>

definition NewVolume :: "VolumeManager \<Rightarrow> VolumeInfo \<Rightarrow> error option \<times> VolumeManager" where
  "NewVolume m info = (case CreateVolume (ds m) info of (err, d1) \<Rightarrow> (err, m\<lparr>ds := d1\<rparr>))"

text \<open>
  The fields that the composite literal does not name (\<^verbatim>\<open>NodeID\<close>,
  \<^verbatim>\<open>RecurringJobs\<close>) get Go's zero values.
\<close>

definition VolumeCreate ::
  "Collaborators \<Rightarrow> VolumeManager \<Rightarrow> VolumeCreateRequest \<Rightarrow> error option \<times> VolumeManager" where
  "VolumeCreate c m request =
     (case ConvertSize c (create_Size request) of
        Inl e \<Rightarrow> (wrapErr ''unable to create volume'' (Some e), m)
      | Inr _ \<Rightarrow>
          (case GetRandomNode c of
             Inl e \<Rightarrow> (wrapErr ''unable to create volume'' (Some e), m)
           | Inr node \<Rightarrow>
               (case (if create_FromBackup request \<noteq> '''' then
                        (case GetBackup c (create_FromBackup request) of
                           Inl e \<Rightarrow> Inl (CannotGetBackup (create_FromBackup request) e)
                         | Inr backup \<Rightarrow> Inr (VolumeSize backup))
                      else Inr (create_Size request)) of
                  Inl e \<Rightarrow> (wrapErr ''unable to create volume'' (Some e), m)
                | Inr size' \<Rightarrow>
                    let info = \<lparr>Name = create_Name request,
                                OwnerID = ID node,
                                Size = size',
                                FromBackup = create_FromBackup request,
                                NumberOfReplicas = create_NumberOfReplicas request,
                                StaleReplicaTimeout = create_StaleReplicaTimeout request,
                                DesireState = VolumeStateDetached,
                                RecurringJobs = [],
                                NodeID = '''',
                                State = VolumeStateCreated,
                                Created = Now c\<rparr>
                    in (case NewVolume m info of (err, m1) \<Rightarrow>
                          (wrapErr ''unable to create volume'' err, m1)))))"

subsection \<open>VolumeCreateBySpec\<close>

text \<open>
  Modelled from the spec: \<^verbatim>\<open>m.notifyVolume(name)\<close> is defined in another file; the
  spec says that it emits a notification event carrying the volume name on the event
  channel.
\<close>

definition notifyVolume :: "VolumeManager \<Rightarrow> string \<Rightarrow> VolumeManager" where
  "notifyVolume m name = m\<lparr>EventChan := EventChan m @ [Event name]\<rparr>"

text \<open>
  The body of \<^verbatim>\<open>VolumeCreateBySpec\<close>. When \<^verbatim>\<open>GetVolume\<close> returns a nil volume and
  a nil error, the argument \<^verbatim>\<open>volume.Name\<close> of \<^verbatim>\<open>fmt.Errorf\<close> dereferences the nil
  volume before any error is built: the body is left by a panic, with \<^verbatim>\<open>err\<close> still
  nil.
\<close>

definition VolumeCreateBySpec_body ::
  "Collaborators \<Rightarrow> VolumeManager \<Rightarrow> string \<Rightarrow> outcome \<times> VolumeManager" where
  "VolumeCreateBySpec_body c m name =
     (case GetVolume (ds m) name of ((volume, err), d1) \<Rightarrow>
        (case err of
           Some e \<Rightarrow> (Returns (Some e), m\<lparr>ds := d1\<rparr>)
         | None \<Rightarrow>
             (case volume of
                None \<Rightarrow> (Panics None, m\<lparr>ds := d1\<rparr>)
              | Some volume \<Rightarrow>
                  if State volume = VolumeStateCreated then (Returns None, m\<lparr>ds := d1\<rparr>)
                  else if OwnerID volume = '''' then
                    (Returns (Some (NoTargetNodeID (Name volume))), m\<lparr>ds := d1\<rparr>)
                  else
                    (case ConvertSize c (Size volume) of
                       Inl e \<Rightarrow> (Returns (Some e), m\<lparr>ds := d1\<rparr>)
                     | Inr _ \<Rightarrow>
                         let volume = volume\<lparr>Created := Now c\<rparr>;
                             volume = volume\<lparr>State := VolumeStateCreated\<rparr>;
                             volume = volume\<lparr>Name := name\<rparr>;
                             volume = volume\<lparr>DesireState := VolumeStateDetached\<rparr>
                         in (case ValidateVolume c volume of
                               Some e \<Rightarrow> (Returns (Some e), m\<lparr>ds := d1\<rparr>)
                             | None \<Rightarrow>
                                 (case UpdateVolume d1 volume of (err, d2) \<Rightarrow>
                                    (Returns err, m\<lparr>ds := d2\<rparr>)))))))"

text \<open>
  The deferred function of \<^verbatim>\<open>VolumeCreateBySpec\<close>:
  \<^verbatim>\<open>if err != nil { err = errors.Wrap(...) } else { m.notifyVolume(name) }\<close>. It runs
  when the body returns and also while a panic unwinds, on the value \<^verbatim>\<open>err\<close> then
  holds.
\<close>

definition deferCreateBySpec :: "string \<Rightarrow> outcome \<times> VolumeManager \<Rightarrow> outcome \<times> VolumeManager" where
  "deferCreateBySpec name r =
     (case r of
        (Returns (Some e), m) \<Rightarrow> (Returns (Some (Wrap e ''unable to create volume by spec'')), m)
      | (Returns None, m) \<Rightarrow> (Returns None, notifyVolume m name)
      | (Panics (Some e), m) \<Rightarrow> (Panics (Some (Wrap e ''unable to create volume by spec'')), m)
      | (Panics None, m) \<Rightarrow> (Panics None, notifyVolume m name))"

definition VolumeCreateBySpec ::
  "Collaborators \<Rightarrow> VolumeManager \<Rightarrow> string \<Rightarrow> outcome \<times> VolumeManager" where
  "VolumeCreateBySpec c m name = deferCreateBySpec name (VolumeCreateBySpec_body c m name)"

subsection \<open>SettingsGet\<close>

text \<open>
  The result is Go's pair (settings, err). Inside the \<^verbatim>\<open>if settings == nil\<close> block,
  \<^verbatim>\<open>err := m.ds.CreateSettings(settings)\<close> declares a second \<^verbatim>\<open>err\<close>, local to the
  block (\<open>err_inner\<close> below), and \<^verbatim>\<open>settings, err = m.ds.GetSettings()\<close> assigns the
  outer \<^verbatim>\<open>settings\<close> and that inner \<^verbatim>\<open>err\<close>. The final
  \<^verbatim>\<open>return settings, err\<close> is outside the block and returns the outer \<^verbatim>\<open>err\<close>.
\<close>

definition SettingsGet :: "VolumeManager \<Rightarrow> (SettingsInfo option \<times> error option) \<times> VolumeManager" where
  "SettingsGet m =
     (case GetSettings (ds m) of ((settings, err), d1) \<Rightarrow>
        (case err of
           Some e \<Rightarrow> ((None, Some e), m\<lparr>ds := d1\<rparr>)
         | None \<Rightarrow>
             (case settings of
                Some s \<Rightarrow> ((Some s, err), m\<lparr>ds := d1\<rparr>)
              | None \<Rightarrow>
                  (case CreateSettings d1 emptySettingsInfo of (err_inner, d2) \<Rightarrow>
                     (case GetSettings d2 of ((settings, err_inner), d3) \<Rightarrow>
                        ((settings, err), m\<lparr>ds := d3\<rparr>))))))"

subsection \<open>The managed-volume cache and the dispatch operations\<close>

datatype EngineClient = EngineClient string

datatype Job = Job string

text \<open>
  The methods of \<^verbatim>\<open>ManagedVolume\<close> that the dispatch operations call, taken as
  parameters (their file is not among the sources).
\<close>

record ManagedVolumeOps =
  mv_GetEngineClient :: "ManagedVolume \<Rightarrow> EngineClient option \<times> error option"
  mv_SnapshotPurge :: "ManagedVolume \<Rightarrow> error option"
  mv_SnapshotBackup :: "ManagedVolume \<Rightarrow> string \<Rightarrow> string \<Rightarrow> error option"
  mv_ReplicaRemove :: "ManagedVolume \<Rightarrow> string \<Rightarrow> error option"
  mv_ListJobsInfo :: "ManagedVolume \<Rightarrow> (string \<rightharpoonup> Job)"

text \<open>
  Modelled from the spec: \<^verbatim>\<open>getManagedVolume(name, create)\<close> is defined in another
  file. The spec: it returns the existing entry, or, if \<open>create\<close> is true, constructs and
  registers a new one after loading the backing VolumeInfo, or returns a not-found error
  if the volume record itself does not exist and \<open>create\<close> is false. Nothing is
  constructed unless \<open>create\<close> is true, so with \<open>create\<close> false and no resident entry
  there is no managed volume to return, whether or not the record exists: the model
  returns the not-found error in both cases.
\<close>

definition getManagedVolume ::
  "VolumeManager \<Rightarrow> string \<Rightarrow> bool \<Rightarrow> (ManagedVolume option \<times> error option) \<times> VolumeManager" where
  "getManagedVolume m name create =
     (case managedVolumes m name of
        Some mv \<Rightarrow> ((Some mv, None), m)
      | None \<Rightarrow>
          if create then
            (case GetVolume (ds m) name of ((volume, err), d1) \<Rightarrow>
               (case err of
                  Some e \<Rightarrow> ((None, Some e), m\<lparr>ds := d1\<rparr>)
                | None \<Rightarrow>
                    (case volume of
                       None \<Rightarrow> ((None, Some (CannotFindVolume name)), m\<lparr>ds := d1\<rparr>)
                     | Some v \<Rightarrow>
                         ((Some \<lparr>mv_volume = v\<rparr>, None),
                          m\<lparr>ds := d1,
                            managedVolumes := (managedVolumes m)(name \<mapsto> \<lparr>mv_volume = v\<rparr>)\<rparr>))))
          else ((None, Some (CannotFindManagedVolume name)), m))"

text \<open>
  The five dispatch operations. Each calls \<^verbatim>\<open>m.getManagedVolume(volumeName, false)\<close>.
  A nil managed volume returned with a nil error would be dereferenced by the method
  call; that is the \<open>NilDereference\<close> branch, which the model of the cache above never
  reaches.
\<close>

datatype 'a dispatched = Result 'a | NilDereference

definition GetEngineClient ::
  "ManagedVolumeOps \<Rightarrow> VolumeManager \<Rightarrow> string \<Rightarrow>
   (EngineClient option \<times> error option) dispatched \<times> VolumeManager" where
  "GetEngineClient ops m volumeName =
     (case getManagedVolume m volumeName False of ((volume, err), m1) \<Rightarrow>
        (case err of
           Some e \<Rightarrow> (Result (None, Some e), m1)
         | None \<Rightarrow>
             (case volume of
                None \<Rightarrow> (NilDereference, m1)
              | Some volume \<Rightarrow> (Result (mv_GetEngineClient ops volume), m1))))"

definition SnapshotPurge ::
  "ManagedVolumeOps \<Rightarrow> VolumeManager \<Rightarrow> string \<Rightarrow> error option dispatched \<times> VolumeManager" where
  "SnapshotPurge ops m volumeName =
     (case getManagedVolume m volumeName False of ((volume, err), m1) \<Rightarrow>
        (case err of
           Some e \<Rightarrow> (Result (Some e), m1)
         | None \<Rightarrow>
             (case volume of
                None \<Rightarrow> (NilDereference, m1)
              | Some volume \<Rightarrow> (Result (mv_SnapshotPurge ops volume), m1))))"

definition SnapshotBackup ::
  "ManagedVolumeOps \<Rightarrow> VolumeManager \<Rightarrow> string \<Rightarrow> string \<Rightarrow> string \<Rightarrow>
   error option dispatched \<times> VolumeManager" where
  "SnapshotBackup ops m volumeName snapshotName backupTarget =
     (case getManagedVolume m volumeName False of ((volume, err), m1) \<Rightarrow>
        (case err of
           Some e \<Rightarrow> (Result (Some e), m1)
         | None \<Rightarrow>
             (case volume of
                None \<Rightarrow> (NilDereference, m1)
              | Some volume \<Rightarrow>
                  (Result (mv_SnapshotBackup ops volume snapshotName backupTarget), m1))))"

definition ReplicaRemove ::
  "ManagedVolumeOps \<Rightarrow> VolumeManager \<Rightarrow> string \<Rightarrow> string \<Rightarrow>
   error option dispatched \<times> VolumeManager" where
  "ReplicaRemove ops m volumeName replicaName =
     (case getManagedVolume m volumeName False of ((volume, err), m1) \<Rightarrow>
        (case err of
           Some e \<Rightarrow> (Result (Some e), m1)
         | None \<Rightarrow>
             (case volume of
                None \<Rightarrow> (NilDereference, m1)
              | Some volume \<Rightarrow> (Result (mv_ReplicaRemove ops volume replicaName), m1))))"

definition JobList ::
  "ManagedVolumeOps \<Rightarrow> VolumeManager \<Rightarrow> string \<Rightarrow>
   ((string \<rightharpoonup> Job) option \<times> error option) dispatched \<times> VolumeManager" where
  "JobList ops m volumeName =
     (case getManagedVolume m volumeName False of ((volume, err), m1) \<Rightarrow>
        (case err of
           Some e \<Rightarrow> (Result (None, Some e), m1)
         | None \<Rightarrow>
             (case volume of
                None \<Rightarrow> (NilDereference, m1)
              | Some volume \<Rightarrow> (Result (Some (mv_ListJobsInfo ops volume), None), m1))))"

section \<open>Specification-side vocabulary\<close>


section \<open>Example inputs\<close>

text \<open>Concrete records and managers, on which the theorems below are run.\<close>

definition exampleVolume :: "string \<Rightarrow> VolumeState \<Rightarrow> VolumeInfo" where
  "exampleVolume n st =
     \<lparr>Name = n, OwnerID = ''node-1'', Size = ''10Gi'', FromBackup = '''',
      NumberOfReplicas = 3, StaleReplicaTimeout = 20, DesireState = VolumeStateDetached,
      RecurringJobs = [], NodeID = '''', State = st, Created = ''2017-06-01T00:00:00Z''\<rparr>"

definition exampleManager ::
  "(string \<rightharpoonup> VolumeInfo) \<Rightarrow> (string \<times> string \<rightharpoonup> ReplicaInfo) \<Rightarrow> error option list \<Rightarrow>
   VolumeManager" where
  "exampleManager vs rs fs =
     \<lparr>ds = \<lparr>volumes = vs, replicas = rs, settingsRecord = None, faults = fs\<rparr>,
      managedVolumes = Map.empty, EventChan = []\<rparr>"

definition exampleCollaborators :: Collaborators where
  "exampleCollaborators =
     \<lparr>ConvertSize = (\<lambda>s. if s = ''10Gi'' then Inr 10737418240
                          else if s = ''2Gi'' then Inr 2147483648
                          else Inl (Collaborator ''invalid size'')),
      GetRandomNode = Inr \<lparr>ID = ''node-1''\<rparr>,
      GetBackup = (\<lambda>b. if b = ''backup-1'' then Inr \<lparr>VolumeSize = ''2Gi''\<rparr>
                        else Inl (Collaborator ''no such backup'')),
      Now = ''2017-06-01T00:00:00Z'',
      ValidateVolume = (\<lambda>v. if NumberOfReplicas v < 1 then Some (Collaborator ''invalid volume'')
                             else None)\<rparr>"


definition exampleOps :: ManagedVolumeOps where
  "exampleOps =
     \<lparr>mv_GetEngineClient = (\<lambda>mv. (Some (EngineClient (Name (mv_volume mv))), None)),
      mv_SnapshotPurge = (\<lambda>mv. None),
      mv_SnapshotBackup = (\<lambda>mv snapshotName backupTarget.
         if snapshotName = '''' then Some (Collaborator ''no such snapshot'') else None),
      mv_ReplicaRemove = (\<lambda>mv replicaName. None),
      mv_ListJobsInfo = (\<lambda>mv. Map.empty)\<rparr>"

section \<open>Properties\<close>

subsection \<open>Shared facts about the datastore\<close>




subsection \<open>VolumeAttach\<close>



text \<open>A failure of the datastore read itself is returned wrapped, whatever the records are.\<close>

lemma VolumeAttach_datastore_error:
  "faults (ds m) = Some e # fs \<Longrightarrow>
   fst (VolumeAttach m request) = Some (Wrap e ''unable to attach volume'')"
  by (simp add: VolumeAttach_def GetVolume_def nextFault_def wrapErr_def)



subsection \<open>VolumeDelete\<close>







subsection \<open>VolumeCreate\<close>

text \<open>
  Claim C9. If the requested size does not parse, or the registry has no node to give,
  or the request names a backup and the backup lookup fails, then \<^verbatim>\<open>VolumeCreate\<close>
  returns an error and the manager, its datastore included, is exactly as before: no
  volume record is written.
\<close>

theorem VolumeCreate_rejects_before_mutation:
  "isl (ConvertSize c (create_Size request)) \<or> isl (GetRandomNode c) \<or>
   (create_FromBackup request \<noteq> '''' \<and> isl (GetBackup c (create_FromBackup request))) \<Longrightarrow>
   fst (VolumeCreate c m request) \<noteq> None \<and> snd (VolumeCreate c m request) = m"
  by (auto simp: VolumeCreate_def wrapErr_def isl_def split: sum.splits)

text \<open>The theorem at a request whose size \<open>ten\<close> does not parse.\<close>

theorem VolumeCreate_rejects_before_mutation_witness:
  "isl (ConvertSize exampleCollaborators (create_Size
      \<lparr>create_Name = ''v1'', create_Size = ''ten'', create_FromBackup = '''',
       create_NumberOfReplicas = 3, create_StaleReplicaTimeout = 20\<rparr>)) \<and>
   fst (VolumeCreate exampleCollaborators (exampleManager Map.empty Map.empty [])
      \<lparr>create_Name = ''v1'', create_Size = ''ten'', create_FromBackup = '''',
       create_NumberOfReplicas = 3, create_StaleReplicaTimeout = 20\<rparr>) \<noteq> None \<and>
   volumes (ds (snd (VolumeCreate exampleCollaborators (exampleManager Map.empty Map.empty [])
      \<lparr>create_Name = ''v1'', create_Size = ''ten'', create_FromBackup = '''',
       create_NumberOfReplicas = 3, create_StaleReplicaTimeout = 20\<rparr>))) = Map.empty"
  using VolumeCreate_rejects_before_mutation
          [of exampleCollaborators
              "\<lparr>create_Name = ''v1'', create_Size = ''ten'', create_FromBackup = '''',
                create_NumberOfReplicas = 3, create_StaleReplicaTimeout = 20\<rparr>"
              "exampleManager Map.empty Map.empty []"]
  by (simp add: exampleCollaborators_def exampleManager_def)

text \<open>
  Claim C6. Whenever \<^verbatim>\<open>VolumeCreate\<close> succeeds on a request whose \<open>FromBackup\<close> is not
  empty, the backup lookup and the node draw succeeded, and the record stored under the
  requested name has the backup's recorded volume size as its \<open>Size\<close> (the request's own
  \<open>Size\<close> does not appear in it), \<open>State\<close> \<open>Created\<close>, \<open>DesireState\<close> \<open>Detached\<close> and
  the drawn node's identifier as \<open>OwnerID\<close>.
\<close>

theorem VolumeCreate_from_backup_size:
  assumes "VolumeCreate c m request = (None, m')"
    and "create_FromBackup request \<noteq> ''''"
  shows "\<exists>backup node.
           GetBackup c (create_FromBackup request) = Inr backup \<and>
           GetRandomNode c = Inr node \<and>
           volumes (ds m') (create_Name request) =
             Some \<lparr>Name = create_Name request, OwnerID = ID node, Size = VolumeSize backup,
                   FromBackup = create_FromBackup request,
                   NumberOfReplicas = create_NumberOfReplicas request,
                   StaleReplicaTimeout = create_StaleReplicaTimeout request,
                   DesireState = VolumeStateDetached, RecurringJobs = [], NodeID = '''',
                   State = VolumeStateCreated, Created = Now c\<rparr>"
  using assms
  by (auto simp: VolumeCreate_def NewVolume_def CreateVolume_def nextFault_def wrapErr_def Let_def
      split: sum.splits list.splits option.splits prod.splits if_splits)

text \<open>
  The theorem at a request for \<open>10Gi\<close> from a backup that recorded \<open>2Gi\<close>: the stored
  size is \<open>2Gi\<close>.
\<close>

theorem VolumeCreate_from_backup_size_witness:
  "VolumeCreate exampleCollaborators (exampleManager Map.empty Map.empty [])
      \<lparr>create_Name = ''v1'', create_Size = ''10Gi'', create_FromBackup = ''backup-1'',
       create_NumberOfReplicas = 3, create_StaleReplicaTimeout = 20\<rparr> =
     (None, exampleManager
        [''v1'' \<mapsto> \<lparr>Name = ''v1'', OwnerID = ''node-1'', Size = ''2Gi'',
                   FromBackup = ''backup-1'', NumberOfReplicas = 3, StaleReplicaTimeout = 20,
                   DesireState = VolumeStateDetached, RecurringJobs = [], NodeID = '''',
                   State = VolumeStateCreated, Created = ''2017-06-01T00:00:00Z''\<rparr>]
        Map.empty []) \<and>
   (\<exists>backup node.
      GetBackup exampleCollaborators ''backup-1'' = Inr backup \<and>
      GetRandomNode exampleCollaborators = Inr node \<and>
      VolumeSize backup = ''2Gi'' \<and> ID node = ''node-1'')"
proof -
  let ?req = "\<lparr>create_Name = ''v1'', create_Size = ''10Gi'', create_FromBackup = ''backup-1'',
       create_NumberOfReplicas = 3, create_StaleReplicaTimeout = 20\<rparr>"
  let ?m' = "exampleManager
        [''v1'' \<mapsto> \<lparr>Name = ''v1'', OwnerID = ''node-1'', Size = ''2Gi'',
                   FromBackup = ''backup-1'', NumberOfReplicas = 3, StaleReplicaTimeout = 20,
                   DesireState = VolumeStateDetached, RecurringJobs = [], NodeID = '''',
                   State = VolumeStateCreated, Created = ''2017-06-01T00:00:00Z''\<rparr>]
        Map.empty []"
  have run: "VolumeCreate exampleCollaborators (exampleManager Map.empty Map.empty []) ?req =
      (None, ?m')"
    by (simp add: VolumeCreate_def NewVolume_def CreateVolume_def nextFault_def wrapErr_def
          exampleCollaborators_def exampleManager_def)
  have fb: "create_FromBackup ?req \<noteq> ''''" by simp
  from VolumeCreate_from_backup_size [OF run fb] run show ?thesis
    by (auto simp: exampleManager_def)
qed

subsection \<open>VolumeCreateBySpec\<close>






text \<open>
  The body of \<^verbatim>\<open>VolumeCreateBySpec\<close> sends nothing; the deferred function sends one
  event after a nil return and none after an error return. A panic can only come from a
  missing record.
\<close>

lemma VolumeCreateBySpec_body_events:
  "EventChan (snd (VolumeCreateBySpec_body c m name)) = EventChan m"
  by (auto simp: VolumeCreateBySpec_body_def GetVolume_def UpdateVolume_def nextFault_def Let_def
      split: list.splits option.splits sum.splits prod.splits)

lemma VolumeCreateBySpec_events_on_return:
  "(fst (VolumeCreateBySpec c m name) = Returns None \<longrightarrow>
      EventChan (snd (VolumeCreateBySpec c m name)) = EventChan m @ [Event name]) \<and>
   (fst (VolumeCreateBySpec c m name) = Returns (Some e) \<longrightarrow>
      EventChan (snd (VolumeCreateBySpec c m name)) = EventChan m)"
proof -
  obtain r m1 where b: "VolumeCreateBySpec_body c m name = (r, m1)"
    by (metis prod.exhaust)
  have "EventChan m1 = EventChan m"
    using VolumeCreateBySpec_body_events [of c m name] b by simp
  then show ?thesis
    by (cases r)
      (auto simp: VolumeCreateBySpec_def b deferCreateBySpec_def notifyVolume_def
         split: option.splits)
qed

lemma VolumeCreateBySpec_panics_only_when_absent:
  "fst (VolumeCreateBySpec c m name) = Panics err \<Longrightarrow> volumes (ds m) name = None"
  by (auto simp: VolumeCreateBySpec_def VolumeCreateBySpec_body_def deferCreateBySpec_def
        GetVolume_def UpdateVolume_def nextFault_def Let_def
      split: list.splits option.splits sum.splits prod.splits if_splits)

text \<open>
  Claim C4 at the input where the code departs from it: \<^verbatim>\<open>VolumeCreateBySpec\<close> for the
  name \<open>v1\<close> on a datastore with no such volume. The nil volume is dereferenced while the
  not-found error is being built, so the call panics with \<^verbatim>\<open>err\<close> still nil, and the
  deferred function takes its success branch and sends an event.
\<close>

theorem VolumeCreateBySpec_missing_volume_emits_event:
  "VolumeCreateBySpec exampleCollaborators (exampleManager Map.empty Map.empty []) ''v1'' =
     (Panics None, (exampleManager Map.empty Map.empty [])\<lparr>EventChan := [Event ''v1'']\<rparr>)"
  by (simp add: VolumeCreateBySpec_def VolumeCreateBySpec_body_def deferCreateBySpec_def
        notifyVolume_def GetVolume_def nextFault_def exampleManager_def)

text \<open>
  Claim C8 at the input where the code departs from it: for a name that no record has,
  \<^verbatim>\<open>VolumeCreateBySpec\<close> panics, where \<^verbatim>\<open>VolumeAttach\<close>, \<^verbatim>\<open>VolumeDetach\<close>,
  \<^verbatim>\<open>VolumeDelete\<close>, \<^verbatim>\<open>VolumeSalvage\<close> and \<^verbatim>\<open>VolumeRecurringUpdate\<close> return the
  wrapped not-found error.
\<close>

theorem VolumeCreateBySpec_missing_volume_panics:
  "fst (VolumeCreateBySpec exampleCollaborators (exampleManager Map.empty Map.empty []) ''ghost'') =
     Panics None \<and>
   fst (VolumeAttach (exampleManager Map.empty Map.empty [])
          \<lparr>attach_Name = ''ghost'', attach_NodeID = ''n1''\<rparr>) =
     Some (Wrap (CannotFindVolume ''ghost'') ''unable to attach volume'') \<and>
   fst (VolumeDetach (exampleManager Map.empty Map.empty []) \<lparr>detach_Name = ''ghost''\<rparr>) =
     Some (Wrap (CannotFindVolume ''ghost'') ''unable to detach volume'') \<and>
   fst (VolumeDelete (exampleManager Map.empty Map.empty []) \<lparr>delete_Name = ''ghost''\<rparr>) =
     Some (Wrap (CannotFindVolume ''ghost'') ''unable to delete volume'') \<and>
   fst (VolumeSalvage (exampleManager Map.empty Map.empty [])
          \<lparr>salvage_Name = ''ghost'', salvage_SalvageReplicaNames = []\<rparr>) =
     Returns (Some (Wrap (CannotFindVolume ''ghost'') ''unable to salvage volume'')) \<and>
   fst (VolumeRecurringUpdate (exampleManager Map.empty Map.empty [])
          \<lparr>recurring_Name = ''ghost'', recurring_RecurringJobs = []\<rparr>) =
     Some (Wrap (CannotFindVolume ''ghost'') ''unable to update volume recurring jobs'')"
  by (simp add: VolumeCreateBySpec_def VolumeCreateBySpec_body_def deferCreateBySpec_def
        notifyVolume_def GetVolume_def nextFault_def exampleManager_def
        VolumeAttach_def VolumeDetach_def VolumeDelete_def VolumeSalvage_def
        VolumeRecurringUpdate_def deferWrap_def wrapErr_def)

subsection \<open>SettingsGet\<close>

text \<open>
  What \<^verbatim>\<open>SettingsGet\<close> does on a datastore that reports no failure: with no settings
  record it creates the default one and returns it, and a call after that returns the
  same record and writes nothing. A failed creation write alone does not make the call
  fail. Whenever the first read finds no record, the error returned is nil.
\<close>

lemma SettingsGet_creates_default:
  "settingsRecord (ds m) = None \<Longrightarrow> faults (ds m) = [] \<Longrightarrow>
   SettingsGet m =
     ((Some emptySettingsInfo, None), m\<lparr>ds := (ds m)\<lparr>settingsRecord := Some emptySettingsInfo\<rparr>\<rparr>)"
  by (simp add: SettingsGet_def GetSettings_def CreateSettings_def nextFault_def)

lemma SettingsGet_existing:
  "settingsRecord (ds m) = Some s \<Longrightarrow> faults (ds m) = [] \<Longrightarrow> SettingsGet m = ((Some s, None), m)"
  by (simp add: SettingsGet_def GetSettings_def nextFault_def)

lemma SettingsGet_twice:
  "settingsRecord (ds m) = None \<Longrightarrow> faults (ds m) = [] \<Longrightarrow>
   SettingsGet (snd (SettingsGet m)) = SettingsGet m"
  by (simp add: SettingsGet_creates_default SettingsGet_existing)

lemma SettingsGet_create_failure_not_fatal:
  "settingsRecord (ds m) = None \<Longrightarrow> faults (ds m) = [None, Some e] \<Longrightarrow>
   fst (SettingsGet m) = (None, None)"
  by (simp add: SettingsGet_def GetSettings_def CreateSettings_def nextFault_def)

lemma SettingsGet_never_reports_reread_error:
  "fst (GetSettings (ds m)) = (None, None) \<Longrightarrow> snd (fst (SettingsGet m)) = None"
  by (auto simp: SettingsGet_def split: prod.splits option.splits)

text \<open>
  Claim C7 at the input where the code departs from it: a datastore with no settings
  record whose first read succeeds, whose creation write succeeds and whose re-read
  fails. The re-read returns no settings and an error; \<^verbatim>\<open>SettingsGet\<close> returns no
  settings and no error, because the re-read's error was assigned to the variable local
  to the block.
\<close>

theorem SettingsGet_drops_reread_error:
  "fst (SettingsGet (exampleManager Map.empty Map.empty
          [None, None, Some (Collaborator ''read timed out'')])) =
     (None, None) \<and>
   fst (GetSettings (snd (CreateSettings (snd (GetSettings
          (ds (exampleManager Map.empty Map.empty
             [None, None, Some (Collaborator ''read timed out'')]))))
          emptySettingsInfo))) =
     (None, Some (Collaborator ''read timed out''))"
  by (simp add: SettingsGet_def GetSettings_def CreateSettings_def nextFault_def exampleManager_def)

subsection \<open>The dispatch operations\<close>

lemma getManagedVolume_no_create:
  "getManagedVolume m name False =
     (case managedVolumes m name of
        Some mv \<Rightarrow> ((Some mv, None), m)
      | None \<Rightarrow> ((None, Some (CannotFindManagedVolume name)), m))"
  by (simp add: getManagedVolume_def split: option.splits)

text \<open>
  Claim C5, as amended. Each of the five dispatch operations resolves the managed volume
  through the cache with \<open>create\<close> false. When a managed volume is resident under the
  name, the operation delegates to it and returns what its method returns. When none is
  resident, the operation creates none: it returns the cache's not-found error and calls
  no method. In both cases the manager is returned exactly as it was, so the operation
  itself neither reads nor writes the datastore and the cache is unchanged.
\<close>

theorem dispatch_resolves_without_creating:
  "(\<forall>mv. managedVolumes m volumeName = Some mv \<longrightarrow>
      GetEngineClient ops m volumeName = (Result (mv_GetEngineClient ops mv), m) \<and>
      SnapshotPurge ops m volumeName = (Result (mv_SnapshotPurge ops mv), m) \<and>
      SnapshotBackup ops m volumeName snapshotName backupTarget =
        (Result (mv_SnapshotBackup ops mv snapshotName backupTarget), m) \<and>
      ReplicaRemove ops m volumeName replicaName = (Result (mv_ReplicaRemove ops mv replicaName), m) \<and>
      JobList ops m volumeName = (Result (Some (mv_ListJobsInfo ops mv), None), m)) \<and>
   (managedVolumes m volumeName = None \<longrightarrow>
      GetEngineClient ops m volumeName = (Result (None, Some (CannotFindManagedVolume volumeName)), m) \<and>
      SnapshotPurge ops m volumeName = (Result (Some (CannotFindManagedVolume volumeName)), m) \<and>
      SnapshotBackup ops m volumeName snapshotName backupTarget =
        (Result (Some (CannotFindManagedVolume volumeName)), m) \<and>
      ReplicaRemove ops m volumeName replicaName =
        (Result (Some (CannotFindManagedVolume volumeName)), m) \<and>
      JobList ops m volumeName = (Result (None, Some (CannotFindManagedVolume volumeName)), m))"
  by (simp add: GetEngineClient_def SnapshotPurge_def SnapshotBackup_def ReplicaRemove_def
        JobList_def getManagedVolume_no_create)

text \<open>
  Claim C5 as stated fails: the record of volume \<open>v1\<close> exists and no managed volume is
  resident; \<^verbatim>\<open>SnapshotPurge\<close> returns the not-found error and afterwards there is still
  no managed volume for \<open>v1\<close>.
\<close>

theorem dispatch_does_not_create:
  "volumes (ds (exampleManager [''v1'' \<mapsto> exampleVolume ''v1'' VolumeStateHealthy] Map.empty []))
      ''v1'' = Some (exampleVolume ''v1'' VolumeStateHealthy) \<and>
   managedVolumes (exampleManager [''v1'' \<mapsto> exampleVolume ''v1'' VolumeStateHealthy] Map.empty [])
      ''v1'' = None \<and>
   fst (SnapshotPurge exampleOps
          (exampleManager [''v1'' \<mapsto> exampleVolume ''v1'' VolumeStateHealthy] Map.empty []) ''v1'') =
     Result (Some (CannotFindManagedVolume ''v1'')) \<and>
   managedVolumes (snd (SnapshotPurge exampleOps
          (exampleManager [''v1'' \<mapsto> exampleVolume ''v1'' VolumeStateHealthy] Map.empty []) ''v1''))
      ''v1'' = None"
  by (simp add: SnapshotPurge_def getManagedVolume_def exampleManager_def)

text \<open>
  The amended claim at two inputs: \<^verbatim>\<open>GetEngineClient\<close> with a managed volume resident
  for \<open>v1\<close>, and \<^verbatim>\<open>JobList\<close> for \<open>v2\<close> with an empty cache.
\<close>

theorem dispatch_resolves_without_creating_witness:
  "managedVolumes
     ((exampleManager [''v1'' \<mapsto> exampleVolume ''v1'' VolumeStateHealthy] Map.empty [])
        \<lparr>managedVolumes := [''v1'' \<mapsto> \<lparr>mv_volume = exampleVolume ''v1'' VolumeStateHealthy\<rparr>]\<rparr>)
     ''v1'' = Some \<lparr>mv_volume = exampleVolume ''v1'' VolumeStateHealthy\<rparr> \<and>
   fst (GetEngineClient exampleOps
     ((exampleManager [''v1'' \<mapsto> exampleVolume ''v1'' VolumeStateHealthy] Map.empty [])
        \<lparr>managedVolumes := [''v1'' \<mapsto> \<lparr>mv_volume = exampleVolume ''v1'' VolumeStateHealthy\<rparr>]\<rparr>)
     ''v1'') = Result (Some (EngineClient ''v1''), None) \<and>
   managedVolumes (exampleManager Map.empty Map.empty []) ''v2'' = None \<and>
   JobList exampleOps (exampleManager Map.empty Map.empty []) ''v2'' =
     (Result (None, Some (CannotFindManagedVolume ''v2'')), exampleManager Map.empty Map.empty [])"
  using dispatch_resolves_without_creating
          [of "(exampleManager [''v1'' \<mapsto> exampleVolume ''v1'' VolumeStateHealthy] Map.empty [])
                 \<lparr>managedVolumes := [''v1'' \<mapsto> \<lparr>mv_volume = exampleVolume ''v1'' VolumeStateHealthy\<rparr>]\<rparr>"
              "''v1''" exampleOps "''snap''" "''target''" "''r1''"]
        dispatch_resolves_without_creating
          [of "exampleManager Map.empty Map.empty []" "''v2''" exampleOps "''snap''" "''target''" "''r1''"]
  by (simp add: exampleManager_def exampleVolume_def exampleOps_def)

subsection \<open>VolumeSalvage\<close>




















end
